theory Spec2Isabelle
  imports Complex_Main "HOL-Library.AList"
begin

section \<open>Data model of \<open>core/models.py\<close>\<close>

text \<open>
  Rows are identified by their primary key. A \<open>DecimalField\<close> holds a Python
  \<open>Decimal\<close>; the products, quotients by 100 and sums the module forms stay within the
  28 significant digits of the default decimal context for field-sized operands, so a
  \<open>Decimal\<close> is modelled by the rational number it denotes. A \<open>DateTimeField\<close> is a
  point in time, counted in seconds. A \<open>FloatField\<close> holds a Python \<open>float\<close>; its
  carrier is the type parameter \<open>'f\<close> and the float operations are passed explicitly
  (\<open>float_ops\<close> below), so that nothing is assumed about rounding: the product of a
  float and an int and the difference of two floats, which \<open>OrderItem.save\<close> computes,
  and the order and the zero in which a negative stock is expressed.

  A foreign key is the key of the row it refers to. Where a method uses the related
  object only for its identity or for a reverse relation (\<open>item.menu_item\<close>,
  \<open>self.menu_item\<close>), the key stands for the object; where it reads or writes the
  related row (\<open>recipe.ingredient\<close>, \<open>self.order\<close>), the row is looked up and a
  missing row raises \<open>DoesNotExist\<close>. The discount of an order, which no method
  writes, is held in the order. A raise is modelled by its error alone: what a method
  had already written when it raised is not tracked.
\<close>

type_synonym ident = nat
type_synonym decimal = rat
type_synonym datetime = int

datatype py_error = NameError | TypeError | DoesNotExist

record 'f float_ops =
  float_mul_int :: "'f \<Rightarrow> int \<Rightarrow> 'f"
  float_sub :: "'f \<Rightarrow> 'f \<Rightarrow> 'f"
  float_less :: "'f \<Rightarrow> 'f \<Rightarrow> bool"
  float_zero :: 'f

record 'f Ingredient =
  i_name :: string
  i_quantity :: 'f
  i_unit :: string
  reorder_point :: 'f
  cost_per_unit :: decimal

record MenuItem =
  m_id :: ident
  m_name :: string
  m_price :: decimal
  misc_cost :: decimal
  is_available :: bool

record 'f Recipe =
  r_menu_item :: ident
  r_ingredient :: ident
  r_quantity :: 'f

record Discount =
  d_name :: string
  discount_type :: string
  discount_value :: decimal
  start_date :: "datetime option"
  end_date :: "datetime option"
  is_active :: bool
  excluded_items :: "ident list"

record Order =
  o_id :: ident
  status :: string
  total_amount :: decimal
  payment_method :: string
  discount :: "Discount option"

record OrderItem =
  oi_order :: ident
  oi_menu_item :: ident
  oi_quantity :: int
  oi_price :: decimal
  is_free :: bool

text \<open>
  The tables the methods read and write. \<open>recipe_tbl\<close> and \<open>orderitem_tbl\<close> are kept
  as lists of rows because the methods iterate over them; the other two are read and
  written by primary key only.
\<close>

record 'f database =
  ingredient_tbl :: "ident \<rightharpoonup> 'f Ingredient"
  recipe_tbl :: "'f Recipe list"
  order_tbl :: "ident \<rightharpoonup> Order"
  orderitem_tbl :: "(ident \<times> OrderItem) list"

text \<open>The reverse relations \<open>menu_item.recipe_items.all()\<close> and \<open>order.items.all()\<close>.\<close>

definition recipe_items :: "'f database \<Rightarrow> ident \<Rightarrow> 'f Recipe list" where
  "recipe_items db m = filter (\<lambda>r. r_menu_item r = m) (recipe_tbl db)"

definition items :: "'f database \<Rightarrow> ident \<Rightarrow> OrderItem list" where
  "items db oid = filter (\<lambda>it. oi_order it = oid) (map snd (orderitem_tbl db))"

section \<open>\<open>MenuItem.caluclate_cost\<close>\<close>

text \<open>
  \<open>cost_per_unit\<close> is a \<open>Decimal\<close> and \<open>recipe.quantity\<close>, read back from a
  \<open>FloatField\<close>, is a \<open>float\<close>. Python's \<open>Decimal.__mul__\<close> returns
  \<open>NotImplemented\<close> for a float operand and so does the reflected \<open>float.__rmul__\<close>,
  hence the product raises \<open>TypeError\<close> whatever the two values are.
\<close>

definition decimal_mul_float :: "decimal \<Rightarrow> 'f \<Rightarrow> py_error + decimal" where
  "decimal_mul_float c q = Inl TypeError"

text \<open>\<open>sum(... for recipe in self.recipe_items.all())\<close>, starting from 0.\<close>

fun sum_recipe_costs ::
  "(ident \<rightharpoonup> 'f Ingredient) \<Rightarrow> 'f Recipe list \<Rightarrow> decimal \<Rightarrow> py_error + decimal" where
  "sum_recipe_costs tbl [] acc = Inr acc"
| "sum_recipe_costs tbl (r # rs) acc =
     (case tbl (r_ingredient r) of
        None \<Rightarrow> Inl DoesNotExist
      | Some i \<Rightarrow>
          (case decimal_mul_float (cost_per_unit i) (r_quantity r) of
             Inl e \<Rightarrow> Inl e
           | Inr v \<Rightarrow> sum_recipe_costs tbl rs (acc + v)))"

definition caluclate_cost :: "'f database \<Rightarrow> MenuItem \<Rightarrow> py_error + decimal" where
  "caluclate_cost db self =
     (case sum_recipe_costs (ingredient_tbl db) (recipe_items db (m_id self)) 0 of
        Inl e \<Rightarrow> Inl e
      | Inr total_cost \<Rightarrow> Inr (total_cost + misc_cost self))"

section \<open>\<open>Discount.is_valid\<close>\<close>

text \<open>
  The module imports \<open>models\<close> from \<open>django.db\<close> and \<open>User\<close> from
  \<open>django.contrib.auth.models\<close> and nothing else, so the global name \<open>timezone\<close> is
  unbound: evaluating \<open>timezone.now()\<close> raises \<open>NameError\<close>, whatever the time of the
  call is.
\<close>

definition timezone_now :: "datetime \<Rightarrow> py_error + datetime" where
  "timezone_now now = Inl NameError"

text \<open>
  The two guards \<open>self.start_date and self.start_date > timezone.now()\<close> and
  \<open>self.end_date and self.end_date < timezone.now()\<close>: \<open>None\<close> is falsy, a datetime
  is truthy, and the clock is read only after the date was found to be set.
\<close>

definition starts_later :: "datetime \<Rightarrow> Discount \<Rightarrow> py_error + bool" where
  "starts_later now self =
     (case start_date self of
        None \<Rightarrow> Inr False
      | Some s \<Rightarrow> (case timezone_now now of Inl e \<Rightarrow> Inl e | Inr t \<Rightarrow> Inr (s > t)))"

definition ended_before :: "datetime \<Rightarrow> Discount \<Rightarrow> py_error + bool" where
  "ended_before now self =
     (case end_date self of
        None \<Rightarrow> Inr False
      | Some e \<Rightarrow> (case timezone_now now of Inl x \<Rightarrow> Inl x | Inr t \<Rightarrow> Inr (e < t)))"

definition is_valid :: "datetime \<Rightarrow> Discount \<Rightarrow> py_error + bool" where
  "is_valid now self =
     (if \<not> is_active self then Inr False
      else case starts_later now self of
             Inl e \<Rightarrow> Inl e
           | Inr True \<Rightarrow> Inr False
           | Inr False \<Rightarrow>
               (case ended_before now self of
                  Inl e \<Rightarrow> Inl e
                | Inr True \<Rightarrow> Inr False
                | Inr False \<Rightarrow> Inr True))"

section \<open>\<open>OrderItem.subtotal\<close> and \<open>Order.update_total_amount\<close>\<close>

definition subtotal :: "OrderItem \<Rightarrow> decimal" where
  "subtotal self = (if is_free self then 0 else oi_price self * of_int (oi_quantity self))"

text \<open>
  The loop of lines 139 to 144, with \<open>discount_amount\<close> as the accumulator. Model
  instances compare by primary key, so \<open>item.menu_item not in excluded_items.all()\<close> is
  membership of the key.
\<close>

fun discount_loop :: "Discount \<Rightarrow> OrderItem list \<Rightarrow> decimal \<Rightarrow> decimal" where
  "discount_loop d [] discount_amount = discount_amount"
| "discount_loop d (item # rest) discount_amount =
     discount_loop d rest
       (if oi_menu_item item \<notin> set (excluded_items d) then
          (if discount_type d = ''amount'' then discount_amount + discount_value d
           else if discount_type d = ''percentage'' then
             discount_amount + (oi_price item * discount_value d / 100) * of_int (oi_quantity item)
           else discount_amount)
        else discount_amount)"

text \<open>Lines 136 to 144: the discount accumulated for the lines of an order.\<close>

definition discount_amount :: "datetime \<Rightarrow> Order \<Rightarrow> OrderItem list \<Rightarrow> py_error + decimal" where
  "discount_amount now self its =
     (case discount self of
        None \<Rightarrow> Inr 0
      | Some d \<Rightarrow>
          (case is_valid now d of
             Inl e \<Rightarrow> Inl e
           | Inr v \<Rightarrow> if v then Inr (discount_loop d its 0) else Inr 0))"

text \<open>
  \<open>update_total_amount\<close> returns the instance with its new \<open>total_amount\<close> and the
  database after \<open>self.save()\<close>, which writes the instance under its key.
\<close>

definition update_total_amount ::
  "datetime \<Rightarrow> 'f database \<Rightarrow> Order \<Rightarrow> py_error + (Order \<times> 'f database)" where
  "update_total_amount now db self =
     (let its = items db (o_id self);
          sub = sum_list (map subtotal its)
      in case discount_amount now self its of
           Inl e \<Rightarrow> Inl e
         | Inr disc \<Rightarrow>
             (let total = sub - disc;
                  self' = self\<lparr>total_amount := max total 0\<rparr>
              in Inr (self', db\<lparr>order_tbl := (order_tbl db)(o_id self \<mapsto> self')\<rparr>)))"

section \<open>\<open>OrderItem.save\<close>\<close>

text \<open>
  \<open>super().save()\<close>: a new instance (no key yet) is inserted under the next key, an
  instance with a key replaces its row, or is inserted when the row is gone.
\<close>

definition fresh_pk :: "(ident \<times> 'a) list \<Rightarrow> ident" where
  "fresh_pk tbl = Suc (fold max (map fst tbl) 0)"

definition super_save ::
  "ident option \<Rightarrow> OrderItem \<Rightarrow> (ident \<times> OrderItem) list \<Rightarrow> (ident \<times> OrderItem) list" where
  "super_save pk self tbl =
     (case pk of
        None \<Rightarrow> tbl @ [(fresh_pk tbl, self)]
      | Some k \<Rightarrow> AList.update k self tbl)"

text \<open>
  The loop of lines 168 to 171 on the ingredient table: each recipe line loads its
  ingredient, subtracts \<open>recipe.quantity * self.quantity\<close> (a float times an int) and
  saves the ingredient. No comparison with the stock or with \<open>reorder_point\<close> is made.
\<close>

fun deplete ::
  "'f float_ops \<Rightarrow> int \<Rightarrow> 'f Recipe list \<Rightarrow> (ident \<rightharpoonup> 'f Ingredient)
     \<Rightarrow> py_error + (ident \<rightharpoonup> 'f Ingredient)" where
  "deplete F q [] tbl = Inr tbl"
| "deplete F q (recipe # rest) tbl =
     (case tbl (r_ingredient recipe) of
        None \<Rightarrow> Inl DoesNotExist
      | Some ingredient \<Rightarrow>
          deplete F q rest
            (tbl(r_ingredient recipe \<mapsto>
               ingredient\<lparr>i_quantity :=
                 float_sub F (i_quantity ingredient) (float_mul_int F (r_quantity recipe) q)\<rparr>)))"

definition OrderItem_save ::
  "'f float_ops \<Rightarrow> datetime \<Rightarrow> ident option \<Rightarrow> OrderItem \<Rightarrow> 'f database
     \<Rightarrow> py_error + 'f database" where
  "OrderItem_save F now pk self db =
     (let db1 = db\<lparr>orderitem_tbl := super_save pk self (orderitem_tbl db)\<rparr>
      in case deplete F (oi_quantity self) (recipe_items db1 (oi_menu_item self))
                (ingredient_tbl db1) of
           Inl e \<Rightarrow> Inl e
         | Inr ings \<Rightarrow>
             (let db2 = db1\<lparr>ingredient_tbl := ings\<rparr>
              in case order_tbl db2 (oi_order self) of
                   None \<Rightarrow> Inl DoesNotExist
                 | Some ord \<Rightarrow>
                     (case update_total_amount now db2 ord of
                        Inl e \<Rightarrow> Inl e
                      | Inr (ord', db3) \<Rightarrow> Inr db3)))"

section \<open>Example data\<close>

text \<open>
  An instance of the float operations on which the model can be run: exact arithmetic on
  rationals. The examples use small dyadic quantities only, on which binary floating
  point computes the same values.
\<close>

definition exact_ops :: "rat float_ops" where
  "exact_ops = \<lparr>float_mul_int = (\<lambda>x n. x * of_int n), float_sub = (\<lambda>x y. x - y),
                 float_less = (\<lambda>x y. x < y), float_zero = 0\<rparr>"

definition bun :: "rat Ingredient" where
  "bun = \<lparr>i_name = ''Bun'', i_quantity = 10, i_unit = ''pcs'', reorder_point = 5,
          cost_per_unit = 1 / 2\<rparr>"

definition burger :: MenuItem where
  "burger = \<lparr>m_id = 1, m_name = ''Burger'', m_price = 10, misc_cost = 1 / 5,
             is_available = True\<rparr>"

definition line_a :: OrderItem where
  "line_a = \<lparr>oi_order = 1, oi_menu_item = 1, oi_quantity = 2, oi_price = 10, is_free = False\<rparr>"

definition line_b :: OrderItem where
  "line_b = \<lparr>oi_order = 1, oi_menu_item = 2, oi_quantity = 1, oi_price = 5, is_free = False\<rparr>"

definition shop :: "rat database" where
  "shop = \<lparr>ingredient_tbl = [1 \<mapsto> bun],
           recipe_tbl = [\<lparr>r_menu_item = 1, r_ingredient = 1, r_quantity = 1\<rparr>],
           order_tbl = Map.empty,
           orderitem_tbl = [(1, line_a), (2, line_b)]\<rparr>"

definition promo :: "string \<Rightarrow> decimal \<Rightarrow> ident list \<Rightarrow> Discount" where
  "promo ty v excl = \<lparr>d_name = ''Promo'', discount_type = ty, discount_value = v,
                      start_date = None, end_date = None, is_active = True,
                      excluded_items = excl\<rparr>"

definition order1 :: "Discount option \<Rightarrow> Order" where
  "order1 disc = \<lparr>o_id = 1, status = ''pending'', total_amount = 0,
                  payment_method = ''cash'', discount = disc\<rparr>"

definition refund_line :: OrderItem where
  "refund_line = \<lparr>oi_order = 1, oi_menu_item = 1, oi_quantity = - 1, oi_price = 5, is_free = False\<rparr>"

definition returns_desk :: "rat database" where
  "returns_desk = \<lparr>ingredient_tbl = Map.empty, recipe_tbl = [], order_tbl = Map.empty,
                   orderitem_tbl = [(1, refund_line)]\<rparr>"

definition free_line :: OrderItem where
  "free_line = \<lparr>oi_order = 1, oi_menu_item = 3, oi_quantity = 2, oi_price = 4, is_free = True\<rparr>"

definition diner :: "rat database" where
  "diner = shop\<lparr>order_tbl := [1 \<mapsto> order1 None]\<rparr>"

definition line_c :: OrderItem where
  "line_c = \<lparr>oi_order = 1, oi_menu_item = 1, oi_quantity = 3, oi_price = 10, is_free = False\<rparr>"

definition line_d :: OrderItem where
  "line_d = \<lparr>oi_order = 1, oi_menu_item = 1, oi_quantity = 20, oi_price = 10, is_free = False\<rparr>"

section \<open>Auxiliary facts\<close>

lemma timezone_now_clock: "timezone_now t1 = timezone_now t2"
  by (simp add: timezone_now_def)

lemma starts_later_unbound:
  "starts_later now d = (if start_date d = None then Inr False else Inl NameError)"
  by (simp add: starts_later_def timezone_now_def split: option.splits)

lemma ended_before_unbound:
  "ended_before now d = (if end_date d = None then Inr False else Inl NameError)"
  by (simp add: ended_before_def timezone_now_def split: option.splits)

lemma is_valid_unbound:
  "is_valid now d =
     (if \<not> is_active d then Inr False
      else if start_date d \<noteq> None \<or> end_date d \<noteq> None then Inl NameError
      else Inr True)"
  by (simp add: is_valid_def starts_later_unbound ended_before_unbound)

lemma is_valid_clock: "is_valid t1 d = is_valid t2 d"
  by (simp add: is_valid_unbound)

lemma is_valid_True_iff:
  "is_valid now d = Inr True \<longleftrightarrow> is_active d \<and> start_date d = None \<and> end_date d = None"
  by (simp add: is_valid_unbound)

lemma is_valid_cases:
  "is_valid now d = Inr True \<or> is_valid now d = Inr False \<or> is_valid now d = Inl NameError"
  by (simp add: is_valid_unbound)

lemma discount_loop_acc: "discount_loop d its acc = acc + discount_loop d its 0"
proof (induction its arbitrary: acc)
  case Nil
  show ?case by simp
next
  case (Cons it its)
  show ?case
  proof -
    let ?a = "(if oi_menu_item it \<notin> set (excluded_items d) then
          (if discount_type d = ''amount'' then acc + discount_value d
           else if discount_type d = ''percentage'' then
             acc + (oi_price it * discount_value d / 100) * of_int (oi_quantity it)
           else acc)
        else acc)"
    let ?b = "(if oi_menu_item it \<notin> set (excluded_items d) then
          (if discount_type d = ''amount'' then 0 + discount_value d
           else if discount_type d = ''percentage'' then
             0 + (oi_price it * discount_value d / 100) * of_int (oi_quantity it)
           else 0)
        else 0)"
    have "discount_loop d (it # its) acc = ?a + discount_loop d its 0"
      using Cons.IH [of ?a] by simp
    moreover have "discount_loop d (it # its) 0 = ?b + discount_loop d its 0"
      using Cons.IH [of ?b] by simp
    moreover have "?a = acc + ?b" by simp
    ultimately show ?thesis by simp
  qed
qed

lemma discount_loop_percentage:
  "discount_type d = ''percentage'' \<Longrightarrow>
   discount_loop d its 0 =
     (\<Sum>it\<leftarrow>filter (\<lambda>it. oi_menu_item it \<notin> set (excluded_items d)) its.
        (oi_price it * discount_value d / 100) * of_int (oi_quantity it))"
proof (induction its)
  case Nil
  show ?case by simp
next
  case (Cons it its)
  then show ?case
    using discount_loop_acc [of d its "(oi_price it * discount_value d / 100) * of_int (oi_quantity it)"]
    by simp
qed

lemma discount_loop_amount:
  "discount_type d = ''amount'' \<Longrightarrow>
   discount_loop d its 0 =
     discount_value d * of_nat (length (filter (\<lambda>it. oi_menu_item it \<notin> set (excluded_items d)) its))"
proof (induction its)
  case Nil
  show ?case by simp
next
  case (Cons it its)
  then show ?case
    using discount_loop_acc [of d its "discount_value d"]
    by (simp add: algebra_simps)
qed

lemma discount_loop_other:
  "discount_type d \<noteq> ''amount'' \<Longrightarrow> discount_type d \<noteq> ''percentage'' \<Longrightarrow>
   discount_loop d its acc = acc"
  by (induction its arbitrary: acc) simp_all

lemma subtotal_sum:
  "sum_list (map subtotal its) =
     (\<Sum>it\<leftarrow>its. if is_free it then 0 else oi_price it * of_int (oi_quantity it))"
  by (induction its) (simp_all add: subtotal_def)

lemma items_shop: "items shop (Suc 0) = [line_a, line_b]"
  by (simp add: items_def shop_def line_a_def line_b_def)

lemma caluclate_cost_no_recipe:
  "recipe_items db (m_id self) = [] \<Longrightarrow> caluclate_cost db self = Inr (misc_cost self)"
  by (simp add: caluclate_cost_def)

lemma caluclate_cost_some_recipe:
  "recipe_items db (m_id self) \<noteq> [] \<Longrightarrow> \<exists>e. caluclate_cost db self = Inl e"
  by (cases "recipe_items db (m_id self)")
     (simp_all add: caluclate_cost_def decimal_mul_float_def split: option.splits)

lemma discount_amount_valid:
  "discount self = Some d \<Longrightarrow> is_valid now d = Inr True \<Longrightarrow>
   discount_amount now self its = Inr (discount_loop d its 0)"
  by (simp add: discount_amount_def)

lemma update_total_amount_Inr:
  "discount_amount now self (items db (o_id self)) = Inr disc \<Longrightarrow>
   update_total_amount now db self =
     Inr (self\<lparr>total_amount := max (sum_list (map subtotal (items db (o_id self))) - disc) 0\<rparr>,
          db\<lparr>order_tbl := (order_tbl db)(o_id self \<mapsto>
            self\<lparr>total_amount := max (sum_list (map subtotal (items db (o_id self))) - disc) 0\<rparr>)\<rparr>)"
  by (simp add: update_total_amount_def Let_def)

lemma update_total_amount_Inl:
  "discount_amount now self (items db (o_id self)) = Inl e \<Longrightarrow>
   update_total_amount now db self = Inl e"
  by (simp add: update_total_amount_def Let_def)

lemma excluded_filter_quantity:
  "filter (\<lambda>it. oi_menu_item it \<notin> S) (map (\<lambda>it. it\<lparr>oi_quantity := q it\<rparr>) its) =
   map (\<lambda>it. it\<lparr>oi_quantity := q it\<rparr>) (filter (\<lambda>it. oi_menu_item it \<notin> S) its)"
  by (induction its) simp_all

lemma o_id_order1: "o_id (order1 disc) = Suc 0"
  by (simp add: order1_def)

lemma items_order1: "items shop (o_id (order1 disc)) = [line_a, line_b]"
  by (simp add: o_id_order1 items_shop)

lemma subtotal_lines: "subtotal line_a = 20" "subtotal line_b = 5"
  by (simp_all add: subtotal_def line_a_def line_b_def)

lemma order_tbl_shop: "order_tbl shop = Map.empty"
  by (simp add: shop_def)

lemma order1_total_0: "order1 disc\<lparr>total_amount := 0\<rparr> = order1 disc"
  by (simp add: order1_def)

lemma is_valid_promo: "is_valid now (promo ty v excl) = Inr True"
  by (simp add: is_valid_unbound promo_def)

lemma discount_loop_append:
  "discount_loop d (xs @ ys) acc = discount_loop d ys (discount_loop d xs acc)"
  by (induction xs arbitrary: acc) simp_all

lemma discount_loop_insert:
  assumes "oi_menu_item it \<notin> set (excluded_items d)"
  shows "discount_loop d (xs @ it # ys) 0 =
         discount_loop d (xs @ ys) 0 +
           (if discount_type d = ''amount'' then discount_value d
            else if discount_type d = ''percentage'' then
              (oi_price it * discount_value d / 100) * of_int (oi_quantity it)
            else 0)"
proof -
  let ?a = "discount_loop d xs 0"
  let ?c = "(if discount_type d = ''amount'' then discount_value d
            else if discount_type d = ''percentage'' then
              (oi_price it * discount_value d / 100) * of_int (oi_quantity it)
            else 0)"
  have "discount_loop d (xs @ it # ys) 0 = discount_loop d ys (?a + ?c)"
    using assms by (simp add: discount_loop_append)
  also have "\<dots> = ?a + ?c + discount_loop d ys 0"
    by (rule discount_loop_acc)
  also have "\<dots> = (?a + discount_loop d ys 0) + ?c" by simp
  also have "?a + discount_loop d ys 0 = discount_loop d (xs @ ys) 0"
    using discount_loop_acc [of d ys ?a] by (simp add: discount_loop_append)
  finally show ?thesis .
qed

lemma items_returns_desk: "items returns_desk (Suc 0) = [refund_line]"
  by (simp add: items_def returns_desk_def refund_line_def)

lemma subtotal_free_line: "subtotal free_line = 0"
  by (simp add: subtotal_def free_line_def)

lemma items_shop_free:
  "items (shop\<lparr>orderitem_tbl := super_save None free_line (orderitem_tbl shop)\<rparr>) (Suc 0) =
     [line_a, line_b, free_line]"
  by (simp add: items_def super_save_def shop_def line_a_def line_b_def free_line_def)

lemma free_line_example:
  "map_sum id (\<lambda>r. total_amount (fst r))
     (update_total_amount now shop (order1 (Some (promo ''amount'' 3 [])))) = Inr 19"
  "map_sum id (\<lambda>r. total_amount (fst r))
     (update_total_amount now
        (shop\<lparr>orderitem_tbl := super_save None free_line (orderitem_tbl shop)\<rparr>)
        (order1 (Some (promo ''amount'' 3 [])))) = Inr 16"
proof -
  let ?d = "promo ''amount'' 3 []"
  let ?o = "order1 (Some ?d)"
  let ?shop' = "shop\<lparr>orderitem_tbl := super_save None free_line (orderitem_tbl shop)\<rparr>"
  have d: "discount ?o = Some ?d" by (simp add: order1_def)
  have e: "excluded_items ?d = []" "discount_type ?d = ''amount''" "discount_value ?d = 3"
    by (simp_all add: promo_def)
  have "discount_loop ?d [line_a, line_b] 0 = 6" by (simp add: e)
  then have da: "discount_amount now ?o (items shop (o_id ?o)) = Inr 6"
    by (simp add: discount_amount_valid [OF d is_valid_promo] items_order1)
  have "discount_loop ?d [line_a, line_b, free_line] 0 = 9" by (simp add: e)
  then have db: "discount_amount now ?o (items ?shop' (o_id ?o)) = Inr 9"
    by (simp add: discount_amount_valid [OF d is_valid_promo] o_id_order1 items_shop_free)
  show "map_sum id (\<lambda>r. total_amount (fst r)) (update_total_amount now shop ?o) = Inr 19"
    by (simp add: update_total_amount_Inr [OF da] items_shop subtotal_lines o_id_order1)
  show "map_sum id (\<lambda>r. total_amount (fst r)) (update_total_amount now ?shop' ?o) = Inr 16"
    by (simp add: update_total_amount_Inr [OF db] items_shop_free subtotal_lines
        subtotal_free_line o_id_order1)
qed

lemma deplete_distinct:
  assumes "distinct (map r_ingredient rs)"
    and "\<forall>r\<in>set rs. tbl (r_ingredient r) \<noteq> None"
  shows "\<exists>tbl'. deplete F q rs tbl = Inr tbl'
     \<and> (\<forall>r\<in>set rs. \<exists>i. tbl (r_ingredient r) = Some i \<and>
            tbl' (r_ingredient r) =
              Some (i\<lparr>i_quantity := float_sub F (i_quantity i) (float_mul_int F (r_quantity r) q)\<rparr>))
     \<and> (\<forall>k. k \<notin> r_ingredient ` set rs \<longrightarrow> tbl' k = tbl k)"
  using assms
proof (induction rs arbitrary: tbl)
  case Nil
  then show ?case by simp
next
  case (Cons r rs)
  let ?k = "r_ingredient r"
  from Cons.prems obtain i where i: "tbl ?k = Some i" by auto
  let ?i' = "i\<lparr>i_quantity := float_sub F (i_quantity i) (float_mul_int F (r_quantity r) q)\<rparr>"
  let ?tbl1 = "tbl(?k \<mapsto> ?i')"
  have fresh: "?k \<notin> r_ingredient ` set rs" using Cons.prems(1) by auto
  have d: "distinct (map r_ingredient rs)" using Cons.prems(1) by simp
  have e: "\<forall>r'\<in>set rs. ?tbl1 (r_ingredient r') \<noteq> None" using Cons.prems(2) by simp
  from Cons.IH [OF d e] obtain tbl' where
    run: "deplete F q rs ?tbl1 = Inr tbl'"
    and upd: "\<forall>r'\<in>set rs. \<exists>j. ?tbl1 (r_ingredient r') = Some j \<and>
            tbl' (r_ingredient r') =
              Some (j\<lparr>i_quantity := float_sub F (i_quantity j) (float_mul_int F (r_quantity r') q)\<rparr>)"
    and rest: "\<forall>k. k \<notin> r_ingredient ` set rs \<longrightarrow> tbl' k = ?tbl1 k"
    by blast
  have "deplete F q (r # rs) tbl = Inr tbl'" using i run by simp
  moreover have "tbl' ?k = Some ?i'" using rest fresh by simp
  moreover have "\<exists>j. tbl (r_ingredient r') = Some j \<and>
            tbl' (r_ingredient r') =
              Some (j\<lparr>i_quantity := float_sub F (i_quantity j) (float_mul_int F (r_quantity r') q)\<rparr>)"
    if "r' \<in> set rs" for r'
  proof -
    from that fresh have "r_ingredient r' \<noteq> ?k" by (metis image_eqI)
    with upd that show ?thesis by auto
  qed
  moreover have "\<forall>k. k \<notin> r_ingredient ` set (r # rs) \<longrightarrow> tbl' k = tbl k"
    using rest by auto
  ultimately show ?case using i by auto
qed

lemma recipe_items_orderitem_tbl [simp]:
  "recipe_items (db\<lparr>orderitem_tbl := t\<rparr>) m = recipe_items db m"
  by (simp add: recipe_items_def)

lemma OrderItem_save_unfold:
  assumes "deplete F (oi_quantity self) (recipe_items db (oi_menu_item self)) (ingredient_tbl db) = Inr ings"
    and "order_tbl db (oi_order self) = Some ord"
  shows "OrderItem_save F now pk self db =
         (case update_total_amount now
                 (db\<lparr>orderitem_tbl := super_save pk self (orderitem_tbl db), ingredient_tbl := ings\<rparr>) ord of
            Inl e \<Rightarrow> Inl e
          | Inr (ord', db3) \<Rightarrow> Inr db3)"
  using assms by (simp add: OrderItem_save_def Let_def)

lemma update_total_amount_tables:
  assumes "update_total_amount now db self = Inr (self', db')"
  shows "ingredient_tbl db' = ingredient_tbl db" "orderitem_tbl db' = orderitem_tbl db"
    "recipe_tbl db' = recipe_tbl db"
  using assms
  by (auto simp add: update_total_amount_def Let_def split: sum.splits)

lemma discount_amount_returns:
  assumes "\<forall>d. discount self = Some d \<longrightarrow> is_valid now d \<noteq> Inl NameError"
  shows "\<exists>disc. discount_amount now self its = Inr disc"
proof (cases "discount self")
  case None
  then show ?thesis by (simp add: discount_amount_def)
next
  case (Some d)
  with assms is_valid_cases [of now d] show ?thesis
    by (auto simp add: discount_amount_def)
qed

lemma recipe_items_diner:
  "recipe_items diner (Suc 0) = [\<lparr>r_menu_item = 1, r_ingredient = 1, r_quantity = 1\<rparr>]"
  by (simp add: recipe_items_def diner_def shop_def)

lemma ingredient_tbl_diner: "ingredient_tbl diner = [Suc 0 \<mapsto> bun]"
  by (simp add: diner_def shop_def)

lemma order_tbl_diner: "order_tbl diner = [Suc 0 \<mapsto> order1 None]"
  by (simp add: diner_def)

lemma orderitem_tbl_diner: "orderitem_tbl diner = [(1, line_a), (2, line_b)]"
  by (simp add: diner_def shop_def)

section \<open>Order totals under a percentage discount\<close>

text \<open>
  C1. For an order whose discount is a percentage discount for which \<open>is_valid\<close>
  returns true, \<open>update_total_amount\<close> sets \<open>total_amount\<close> to
  \<open>max(0, subtotal - D)\<close> and saves the order, where \<open>subtotal\<close> sums, over the
  lines of the order, 0 for a free line and price times quantity otherwise, and \<open>D\<close>
  sums \<open>(price * value / 100) * quantity\<close> over the lines whose menu item is not
  excluded.
\<close>

theorem update_total_amount_percentage:
  assumes "discount self = Some d"
    and "is_valid now d = Inr True"
    and "discount_type d = ''percentage''"
  shows "update_total_amount now db self =
    (let lines = items db (o_id self);
         sub = (\<Sum>it\<leftarrow>lines. if is_free it then 0 else oi_price it * of_int (oi_quantity it));
         D = (\<Sum>it\<leftarrow>filter (\<lambda>it. oi_menu_item it \<notin> set (excluded_items d)) lines.
                (oi_price it * discount_value d / 100) * of_int (oi_quantity it));
         self' = self\<lparr>total_amount := max 0 (sub - D)\<rparr>
     in Inr (self', db\<lparr>order_tbl := (order_tbl db)(o_id self \<mapsto> self')\<rparr>))"
  using assms
  by (simp add: update_total_amount_def discount_amount_def Let_def
      discount_loop_percentage subtotal_sum max.commute)

text \<open>
  The scenario of the specification: lines 10.00 x 2 and 5.00 x 1 under a 10 percent
  discount total 22.50.
\<close>

theorem update_total_amount_percentage_witness:
  "discount (order1 (Some (promo ''percentage'' 10 []))) = Some (promo ''percentage'' 10 [])
   \<and> is_valid 0 (promo ''percentage'' 10 []) = Inr True
   \<and> discount_type (promo ''percentage'' 10 []) = ''percentage''
   \<and> update_total_amount 0 shop (order1 (Some (promo ''percentage'' 10 []))) =
       Inr (order1 (Some (promo ''percentage'' 10 []))\<lparr>total_amount := 45 / 2\<rparr>,
            shop\<lparr>order_tbl := [1 \<mapsto> order1 (Some (promo ''percentage'' 10 []))\<lparr>total_amount := 45 / 2\<rparr>]\<rparr>)"
proof -
  let ?d = "promo ''percentage'' 10 []"
  have h1: "discount (order1 (Some ?d)) = Some ?d" by (simp add: order1_def)
  have h2: "is_valid 0 ?d = Inr True" by (simp add: is_valid_unbound promo_def)
  have h3: "discount_type ?d = ''percentage''" by (simp add: promo_def)
  have o: "o_id (order1 (Some ?d)) = 1" by (simp add: order1_def)
  have e: "excluded_items ?d = []" "discount_value ?d = 10" by (simp_all add: promo_def)
  have ot: "order_tbl shop = Map.empty" by (simp add: shop_def)
  show ?thesis
    using h1 h2 h3 update_total_amount_percentage [OF h1 h2 h3, of shop]
    by (simp add: o items_shop e ot Let_def line_a_def line_b_def)
qed

section \<open>Cost of a menu item\<close>

text \<open>
  C3. The cost of a menu item is claimed to be the sum over its recipe lines of unit
  cost times quantity, plus \<open>misc_cost\<close>, with no error, and 0.70 for the Burger of
  the specification. On the Burger (one recipe line: Bun, quantity 1, unit cost 0.50;
  \<open>misc_cost\<close> 0.20) \<open>caluclate_cost\<close> raises \<open>TypeError\<close> instead: the unit cost
  is a \<open>Decimal\<close> and the recipe quantity a \<open>float\<close>.
\<close>

theorem caluclate_cost_burger: "caluclate_cost shop burger = Inl TypeError"
  by (simp add: caluclate_cost_def recipe_items_def shop_def burger_def decimal_mul_float_def)

section \<open>Validity of a discount\<close>

text \<open>
  C4. \<open>is_valid\<close> is claimed to return true exactly for an active discount whose
  window contains the current time, and false otherwise, with no other outcome. For an
  active discount that started at time 50, asked at time 100, \<open>is_valid\<close> raises
  \<open>NameError\<close>: the name \<open>timezone\<close> is not imported.
\<close>

theorem is_valid_started_discount:
  "is_valid 100 \<lparr>d_name = ''Promo'', discount_type = ''percentage'', discount_value = 10,
                  start_date = Some 50, end_date = None, is_active = True,
                  excluded_items = []\<rparr> = Inl NameError"
  by (simp add: is_valid_def starts_later_def timezone_now_def)

section \<open>Order totals under an amount discount\<close>

text \<open>
  C5. For an order whose discount is an amount discount for which \<open>is_valid\<close> returns
  true, the accumulated discount is the flat value once for each line whose menu item is
  not excluded: the value times the number of such lines. It does not change when the
  quantities of the lines are replaced by any others, and it is what
  \<open>update_total_amount\<close> subtracts from the subtotal.
\<close>

theorem amount_discount_once_per_line:
  assumes "discount self = Some d"
    and "is_valid now d = Inr True"
    and "discount_type d = ''amount''"
  shows "discount_amount now self its =
           Inr (discount_value d *
                of_nat (length (filter (\<lambda>it. oi_menu_item it \<notin> set (excluded_items d)) its)))
       \<and> discount_amount now self (map (\<lambda>it. it\<lparr>oi_quantity := q it\<rparr>) its) =
           discount_amount now self its
       \<and> map_sum id (\<lambda>r. total_amount (fst r)) (update_total_amount now db self) =
           Inr (max (sum_list (map subtotal (items db (o_id self))) -
                     discount_value d *
                     of_nat (length (filter (\<lambda>it. oi_menu_item it \<notin> set (excluded_items d))
                                       (items db (o_id self))))) 0)"
proof -
  have da: "discount_amount now self its =
      Inr (discount_value d *
           of_nat (length (filter (\<lambda>it. oi_menu_item it \<notin> set (excluded_items d)) its)))" for its
    using assms by (simp add: discount_amount_valid discount_loop_amount)
  have "discount_amount now self (map (\<lambda>it. it\<lparr>oi_quantity := q it\<rparr>) its) =
      discount_amount now self its"
    by (simp add: da excluded_filter_quantity)
  moreover have "map_sum id (\<lambda>r. total_amount (fst r)) (update_total_amount now db self) =
      Inr (max (sum_list (map subtotal (items db (o_id self))) -
                discount_value d *
                of_nat (length (filter (\<lambda>it. oi_menu_item it \<notin> set (excluded_items d))
                                  (items db (o_id self))))) 0)"
    by (simp add: update_total_amount_Inr [OF da])
  ultimately show ?thesis using da by simp
qed

theorem amount_discount_once_per_line_witness:
  "discount (order1 (Some (promo ''amount'' 3 [2]))) = Some (promo ''amount'' 3 [2])
   \<and> is_valid 0 (promo ''amount'' 3 [2]) = Inr True
   \<and> discount_type (promo ''amount'' 3 [2]) = ''amount''
   \<and> discount_amount 0 (order1 (Some (promo ''amount'' 3 [2]))) [line_a, line_b] = Inr 3
   \<and> discount_amount 0 (order1 (Some (promo ''amount'' 3 [2])))
        [line_a\<lparr>oi_quantity := 7\<rparr>, line_b\<lparr>oi_quantity := 7\<rparr>] = Inr 3
   \<and> map_sum id (\<lambda>r. total_amount (fst r))
        (update_total_amount 0 shop (order1 (Some (promo ''amount'' 3 [2])))) = Inr 22"
proof -
  let ?d = "promo ''amount'' 3 [2]"
  have h1: "discount (order1 (Some ?d)) = Some ?d" by (simp add: order1_def)
  have h2: "is_valid 0 ?d = Inr True" by (simp add: is_valid_unbound promo_def)
  have h3: "discount_type ?d = ''amount''" by (simp add: promo_def)
  have e: "excluded_items ?d = [2]" "discount_value ?d = 3" by (simp_all add: promo_def)
  show ?thesis
    using h1 h2 h3
      amount_discount_once_per_line [OF h1 h2 h3, of "[line_a, line_b]" "\<lambda>_. 7" shop]
    by (simp add: e items_order1 subtotal_lines) (simp add: line_a_def line_b_def)
qed

section \<open>The total is never negative\<close>

text \<open>
  C6. Whatever the lines and the discount of an order are, when \<open>update_total_amount\<close>
  returns, the \<open>total_amount\<close> of the instance is at least 0, and it is the instance
  that was saved.
\<close>

theorem total_amount_never_negative:
  assumes "update_total_amount now db self = Inr (self', db')"
  shows "0 \<le> total_amount self' \<and> order_tbl db' (o_id self) = Some self'"
proof (cases "discount_amount now self (items db (o_id self))")
  case (Inl e)
  with assms show ?thesis by (simp add: update_total_amount_Inl)
next
  case (Inr disc)
  with assms show ?thesis by (auto simp add: update_total_amount_Inr)
qed

text \<open>An amount discount of 20 on each of two lines exceeds the subtotal of 25.\<close>

theorem total_amount_never_negative_witness:
  "update_total_amount 0 shop (order1 (Some (promo ''amount'' 20 []))) =
     Inr (order1 (Some (promo ''amount'' 20 [])),
          shop\<lparr>order_tbl := [1 \<mapsto> order1 (Some (promo ''amount'' 20 []))]\<rparr>)
   \<and> 0 \<le> total_amount (order1 (Some (promo ''amount'' 20 [])))
   \<and> order_tbl (shop\<lparr>order_tbl := [1 \<mapsto> order1 (Some (promo ''amount'' 20 []))]\<rparr>)
        (o_id (order1 (Some (promo ''amount'' 20 [])))) = Some (order1 (Some (promo ''amount'' 20 [])))"
proof -
  let ?d = "promo ''amount'' 20 []"
  let ?o = "order1 (Some ?d)"
  have d: "discount ?o = Some ?d" by (simp add: order1_def)
  have "discount_loop ?d [line_a, line_b] 0 = 40" by (simp add: promo_def)
  then have da: "discount_amount 0 ?o (items shop (o_id ?o)) = Inr 40"
    by (simp add: discount_amount_valid [OF d is_valid_promo] items_order1)
  have run: "update_total_amount 0 shop ?o = Inr (?o, shop\<lparr>order_tbl := [1 \<mapsto> ?o]\<rparr>)"
    by (simp add: update_total_amount_Inr [OF da] items_shop subtotal_lines
        order1_total_0 o_id_order1 order_tbl_shop)
  show ?thesis
    using run total_amount_never_negative [OF run] by simp
qed

section \<open>Recomputing the total twice\<close>

text \<open>
  C7. When \<open>update_total_amount\<close> has returned, calling it again on the resulting
  instance and database, at any later time, returns the same instance and the same
  database: the recomputation is idempotent.
\<close>

theorem update_total_amount_idempotent:
  assumes "update_total_amount t1 db self = Inr (self1, db1)"
  shows "update_total_amount t2 db1 self1 = Inr (self1, db1)"
proof (cases "discount_amount t1 self (items db (o_id self))")
  case (Inl e)
  with assms show ?thesis by (simp add: update_total_amount_Inl)
next
  case (Inr disc)
  let ?T = "max (sum_list (map subtotal (items db (o_id self))) - disc) 0"
  from assms Inr have s1: "self1 = self\<lparr>total_amount := ?T\<rparr>"
    and d1: "db1 = db\<lparr>order_tbl := (order_tbl db)(o_id self \<mapsto> self\<lparr>total_amount := ?T\<rparr>)\<rparr>"
    by (auto simp add: update_total_amount_Inr)
  have it: "items db1 (o_id self1) = items db (o_id self)"
    by (simp add: s1 d1 items_def)
  have "discount_amount t2 self1 its = discount_amount t1 self its" for its
    by (simp add: discount_amount_def s1 is_valid_clock [of t2 _ t1] split: option.splits)
  with Inr it have "discount_amount t2 self1 (items db1 (o_id self1)) = Inr disc"
    by simp
  from update_total_amount_Inr [OF this] show ?thesis
    by (simp add: it) (simp add: s1 d1)
qed

theorem update_total_amount_idempotent_witness:
  "update_total_amount 0 shop (order1 (Some (promo ''amount'' 3 [2]))) =
     Inr (order1 (Some (promo ''amount'' 3 [2]))\<lparr>total_amount := 22\<rparr>,
          shop\<lparr>order_tbl := [1 \<mapsto> order1 (Some (promo ''amount'' 3 [2]))\<lparr>total_amount := 22\<rparr>]\<rparr>)
   \<and> update_total_amount 60
        (shop\<lparr>order_tbl := [1 \<mapsto> order1 (Some (promo ''amount'' 3 [2]))\<lparr>total_amount := 22\<rparr>]\<rparr>)
        (order1 (Some (promo ''amount'' 3 [2]))\<lparr>total_amount := 22\<rparr>) =
     Inr (order1 (Some (promo ''amount'' 3 [2]))\<lparr>total_amount := 22\<rparr>,
          shop\<lparr>order_tbl := [1 \<mapsto> order1 (Some (promo ''amount'' 3 [2]))\<lparr>total_amount := 22\<rparr>]\<rparr>)"
proof -
  let ?d = "promo ''amount'' 3 [2]"
  let ?o = "order1 (Some ?d)"
  have d: "discount ?o = Some ?d" by (simp add: order1_def)
  have "discount_loop ?d [line_a, line_b] 0 = 3"
    by (simp add: promo_def line_a_def line_b_def)
  then have da: "discount_amount 0 ?o (items shop (o_id ?o)) = Inr 3"
    by (simp add: discount_amount_valid [OF d is_valid_promo] items_order1)
  have run: "update_total_amount 0 shop ?o =
      Inr (?o\<lparr>total_amount := 22\<rparr>, shop\<lparr>order_tbl := [1 \<mapsto> ?o\<lparr>total_amount := 22\<rparr>]\<rparr>)"
    by (simp add: update_total_amount_Inr [OF da] items_shop subtotal_lines
        o_id_order1 order_tbl_shop)
  show ?thesis
    using run update_total_amount_idempotent [OF run, of 60] by simp
qed

section \<open>Order totals under a coupon discount\<close>

text \<open>
  C9 as stated: under a coupon discount for which \<open>is_valid\<close> returns true the
  accumulated discount is 0 and \<open>total_amount\<close> equals the plain subtotal. The second
  part fails where the subtotal is negative. \<open>quantity\<close> is an \<open>IntegerField\<close> and
  may be negative: for an order with the single line 5.00 x (-1) the subtotal is -5 and
  \<open>update_total_amount\<close> leaves \<open>total_amount\<close> at the clamped value 0.
\<close>

theorem coupon_total_is_not_subtotal:
  "discount (order1 (Some (promo ''coupon'' 3 []))) = Some (promo ''coupon'' 3 [])
   \<and> is_valid 0 (promo ''coupon'' 3 []) = Inr True
   \<and> discount_type (promo ''coupon'' 3 []) = ''coupon''
   \<and> sum_list (map subtotal (items returns_desk (o_id (order1 (Some (promo ''coupon'' 3 [])))))) = - 5
   \<and> update_total_amount 0 returns_desk (order1 (Some (promo ''coupon'' 3 []))) =
        Inr (order1 (Some (promo ''coupon'' 3 [])),
             returns_desk\<lparr>order_tbl := [1 \<mapsto> order1 (Some (promo ''coupon'' 3 []))]\<rparr>)
   \<and> total_amount (order1 (Some (promo ''coupon'' 3 []))) = 0"
proof -
  let ?d = "promo ''coupon'' 3 []"
  let ?o = "order1 (Some ?d)"
  have d: "discount ?o = Some ?d" by (simp add: order1_def)
  have ty: "discount_type ?d = ''coupon''" by (simp add: promo_def)
  have sub: "subtotal refund_line = - 5" by (simp add: subtotal_def refund_line_def)
  have "discount_loop ?d [refund_line] 0 = 0" by (simp add: ty)
  then have da: "discount_amount 0 ?o (items returns_desk (o_id ?o)) = Inr 0"
    by (simp add: discount_amount_valid [OF d is_valid_promo] o_id_order1 items_returns_desk)
  have "update_total_amount 0 returns_desk ?o =
      Inr (?o, returns_desk\<lparr>order_tbl := [1 \<mapsto> ?o]\<rparr>)"
    by (simp add: update_total_amount_Inr [OF da] items_returns_desk sub
        order1_total_0 o_id_order1) (simp add: returns_desk_def)
  moreover have "total_amount ?o = 0" by (simp add: order1_def)
  ultimately show ?thesis
    by (simp add: d ty is_valid_promo o_id_order1 items_returns_desk sub)
qed

text \<open>
  C9, amended. Under a coupon discount for which \<open>is_valid\<close> returns true, the
  accumulated discount is exactly 0, \<open>update_total_amount\<close> sets \<open>total_amount\<close> to
  \<open>max(0, subtotal)\<close>, and that is the total the same order gets with no discount
  attached.
\<close>

theorem coupon_discount_has_no_effect:
  assumes "discount self = Some d"
    and "is_valid now d = Inr True"
    and "discount_type d = ''coupon''"
  shows "discount_amount now self its = Inr 0
       \<and> update_total_amount now db self =
           Inr (self\<lparr>total_amount := max 0 (sum_list (map subtotal (items db (o_id self))))\<rparr>,
                db\<lparr>order_tbl := (order_tbl db)(o_id self \<mapsto>
                  self\<lparr>total_amount := max 0 (sum_list (map subtotal (items db (o_id self))))\<rparr>)\<rparr>)
       \<and> map_sum id (\<lambda>r. total_amount (fst r)) (update_total_amount now db (self\<lparr>discount := None\<rparr>)) =
           map_sum id (\<lambda>r. total_amount (fst r)) (update_total_amount now db self)"
proof -
  have da: "discount_amount now self its = Inr 0" for its
    using assms by (simp add: discount_amount_valid discount_loop_other)
  have dn: "discount_amount now (self\<lparr>discount := None\<rparr>) (items db (o_id (self\<lparr>discount := None\<rparr>))) = Inr 0"
    by (simp add: discount_amount_def)
  show ?thesis
    by (simp add: da update_total_amount_Inr [OF da] update_total_amount_Inr [OF dn] max.commute)
qed

theorem coupon_discount_has_no_effect_witness:
  "discount (order1 (Some (promo ''coupon'' 3 []))) = Some (promo ''coupon'' 3 [])
   \<and> is_valid 0 (promo ''coupon'' 3 []) = Inr True
   \<and> discount_type (promo ''coupon'' 3 []) = ''coupon''
   \<and> discount_amount 0 (order1 (Some (promo ''coupon'' 3 []))) [line_a, line_b] = Inr 0
   \<and> update_total_amount 0 shop (order1 (Some (promo ''coupon'' 3 []))) =
        Inr (order1 (Some (promo ''coupon'' 3 []))\<lparr>total_amount := 25\<rparr>,
             shop\<lparr>order_tbl := [1 \<mapsto> order1 (Some (promo ''coupon'' 3 []))\<lparr>total_amount := 25\<rparr>]\<rparr>)
   \<and> map_sum id (\<lambda>r. total_amount (fst r)) (update_total_amount 0 shop (order1 None)) = Inr 25"
proof -
  let ?d = "promo ''coupon'' 3 []"
  let ?o = "order1 (Some ?d)"
  have d: "discount ?o = Some ?d" by (simp add: order1_def)
  have ty: "discount_type ?d = ''coupon''" by (simp add: promo_def)
  have n: "?o\<lparr>discount := None\<rparr> = order1 None" by (simp add: order1_def)
  show ?thesis
    using coupon_discount_has_no_effect [OF d is_valid_promo [of 0] ty, of "[line_a, line_b]" shop]
    by (simp add: d ty is_valid_promo n o_id_order1 items_shop subtotal_lines order_tbl_shop)
qed

section \<open>Free lines and discounts\<close>

text \<open>
  C10. A free line whose menu item is not excluded adds 0 to the subtotal, wherever it
  stands among the lines of the order, and still adds to the discount accumulated under
  a discount for which \<open>is_valid\<close> returns true: the flat value under an amount
  discount, \<open>(price * value / 100) * quantity\<close> under a percentage discount. So there
  are orders whose total, as \<open>update_total_amount\<close> computes it, strictly decreases
  when a free line is added.
\<close>

theorem free_line_accrues_discount:
  assumes "is_free it"
    and "oi_menu_item it \<notin> set (excluded_items d)"
    and "discount self = Some d"
    and "is_valid now d = Inr True"
  shows "subtotal it = 0
       \<and> sum_list (map subtotal (xs @ it # ys)) = sum_list (map subtotal (xs @ ys))
       \<and> discount_amount now self (xs @ ys) = Inr (discount_loop d (xs @ ys) 0)
       \<and> discount_amount now self (xs @ it # ys) =
           Inr (discount_loop d (xs @ ys) 0 +
                (if discount_type d = ''amount'' then discount_value d
                 else if discount_type d = ''percentage'' then
                   (oi_price it * discount_value d / 100) * of_int (oi_quantity it)
                 else 0))
       \<and> (\<exists>(db :: rat database) ord line t t'.
             is_free line
           \<and> map_sum id (\<lambda>r. total_amount (fst r)) (update_total_amount now db ord) = Inr t
           \<and> map_sum id (\<lambda>r. total_amount (fst r))
               (update_total_amount now
                  (db\<lparr>orderitem_tbl := super_save None line (orderitem_tbl db)\<rparr>) ord) = Inr t'
           \<and> t' < t)"
proof -
  have s: "subtotal it = 0" using assms(1) by (simp add: subtotal_def)
  have "is_free free_line" by (simp add: free_line_def)
  then have ex: "\<exists>(db :: rat database) ord line t t'.
             is_free line
           \<and> map_sum id (\<lambda>r. total_amount (fst r)) (update_total_amount now db ord) = Inr t
           \<and> map_sum id (\<lambda>r. total_amount (fst r))
               (update_total_amount now
                  (db\<lparr>orderitem_tbl := super_save None line (orderitem_tbl db)\<rparr>) ord) = Inr t'
           \<and> t' < t"
    using free_line_example [of now] by (intro exI [of _ shop] exI [of _ "order1 (Some (promo ''amount'' 3 []))"]
        exI [of _ free_line] exI [of _ 19] exI [of _ 16]) simp
  show ?thesis
    using assms(3,4) ex
    by (simp add: s discount_amount_valid discount_loop_insert [OF assms(2)])
qed

text \<open>
  A free line 4.00 x 2 raises the 10 percent discount on the two lines of the example
  from 2.50 to 3.30; under an amount discount of 3 it lowers the total from 19 to 16.
\<close>

theorem free_line_accrues_discount_witness:
  "is_free free_line
   \<and> oi_menu_item free_line \<notin> set (excluded_items (promo ''percentage'' 10 []))
   \<and> discount (order1 (Some (promo ''percentage'' 10 []))) = Some (promo ''percentage'' 10 [])
   \<and> is_valid 0 (promo ''percentage'' 10 []) = Inr True
   \<and> subtotal free_line = 0
   \<and> sum_list (map subtotal [line_a, line_b, free_line]) = 25
   \<and> discount_amount 0 (order1 (Some (promo ''percentage'' 10 []))) [line_a, line_b] = Inr (5 / 2)
   \<and> discount_amount 0 (order1 (Some (promo ''percentage'' 10 []))) [line_a, line_b, free_line]
        = Inr (33 / 10)
   \<and> map_sum id (\<lambda>r. total_amount (fst r))
        (update_total_amount 0 shop (order1 (Some (promo ''amount'' 3 [])))) = Inr 19
   \<and> map_sum id (\<lambda>r. total_amount (fst r))
        (update_total_amount 0
           (shop\<lparr>orderitem_tbl := super_save None free_line (orderitem_tbl shop)\<rparr>)
           (order1 (Some (promo ''amount'' 3 [])))) = Inr 16"
proof -
  let ?d = "promo ''percentage'' 10 []"
  have h1: "is_free free_line" by (simp add: free_line_def)
  have h2: "oi_menu_item free_line \<notin> set (excluded_items ?d)" by (simp add: promo_def)
  have h3: "discount (order1 (Some ?d)) = Some ?d" by (simp add: order1_def)
  have e: "excluded_items ?d = []" "discount_type ?d = ''percentage''" "discount_value ?d = 10"
    by (simp_all add: promo_def)
  have f: "oi_price free_line = 4" "oi_quantity free_line = 2" by (simp_all add: free_line_def)
  show ?thesis
    using h1 h2 h3
      free_line_accrues_discount [OF h1 h2 h3 is_valid_promo [of 0], of "[line_a, line_b]" "[]"]
    by (simp add: is_valid_promo subtotal_def e f line_a_def line_b_def free_line_example)
qed

section \<open>Stock depletion when an order line is saved\<close>

text \<open>
  C2. Saving an order line, whether inserted or updated, whose menu item has recipe
  lines on pairwise different ingredients (the \<open>unique_together\<close> constraint) that all
  exist, and whose order exists: every ingredient of a recipe line has its quantity
  reduced by \<open>recipe.quantity * self.quantity\<close> and is stored, every other ingredient
  is left alone, and the result of the save is the result of \<open>update_total_amount\<close> on
  the owning order, run on the database that holds the saved line and the reduced
  stock. When the save returns, its database has that stock, the saved line and the
  recomputed order. In particular a line of quantity \<open>q\<close> on a menu item whose only
  recipe line needs \<open>u\<close> units of an ingredient reduces that ingredient by \<open>u * q\<close>.
\<close>

theorem OrderItem_save_depletes_stock:
  assumes "distinct (map r_ingredient (recipe_items db (oi_menu_item self)))"
    and "\<forall>r\<in>set (recipe_items db (oi_menu_item self)). ingredient_tbl db (r_ingredient r) \<noteq> None"
    and "order_tbl db (oi_order self) = Some ord"
  shows "\<exists>ings.
      (\<forall>r\<in>set (recipe_items db (oi_menu_item self)).
         \<exists>i. ingredient_tbl db (r_ingredient r) = Some i \<and>
             ings (r_ingredient r) =
               Some (i\<lparr>i_quantity := float_sub F (i_quantity i)
                                      (float_mul_int F (r_quantity r) (oi_quantity self))\<rparr>))
    \<and> (\<forall>k. k \<notin> r_ingredient ` set (recipe_items db (oi_menu_item self)) \<longrightarrow>
            ings k = ingredient_tbl db k)
    \<and> OrderItem_save F now pk self db =
        (case update_total_amount now
                (db\<lparr>orderitem_tbl := super_save pk self (orderitem_tbl db), ingredient_tbl := ings\<rparr>)
                ord of
           Inl e \<Rightarrow> Inl e
         | Inr (ord', db3) \<Rightarrow> Inr db3)
    \<and> (\<forall>db'. OrderItem_save F now pk self db = Inr db' \<longrightarrow>
           ingredient_tbl db' = ings
         \<and> orderitem_tbl db' = super_save pk self (orderitem_tbl db)
         \<and> (\<exists>ord'. order_tbl db' = (order_tbl db)(o_id ord \<mapsto> ord')))"
proof -
  from deplete_distinct [OF assms(1,2), of F "oi_quantity self"] obtain ings where
    run: "deplete F (oi_quantity self) (recipe_items db (oi_menu_item self)) (ingredient_tbl db) = Inr ings"
    and upd: "\<forall>r\<in>set (recipe_items db (oi_menu_item self)).
         \<exists>i. ingredient_tbl db (r_ingredient r) = Some i \<and>
             ings (r_ingredient r) =
               Some (i\<lparr>i_quantity := float_sub F (i_quantity i)
                                      (float_mul_int F (r_quantity r) (oi_quantity self))\<rparr>)"
    and rest: "\<forall>k. k \<notin> r_ingredient ` set (recipe_items db (oi_menu_item self)) \<longrightarrow>
            ings k = ingredient_tbl db k"
    by blast
  let ?db2 = "db\<lparr>orderitem_tbl := super_save pk self (orderitem_tbl db), ingredient_tbl := ings\<rparr>"
  note save = OrderItem_save_unfold [OF run assms(3), of now pk]
  have after: "ingredient_tbl db' = ings
         \<and> orderitem_tbl db' = super_save pk self (orderitem_tbl db)
         \<and> (\<exists>ord'. order_tbl db' = (order_tbl db)(o_id ord \<mapsto> ord'))"
    if "OrderItem_save F now pk self db = Inr db'" for db'
  proof -
    from that save obtain ord' where u: "update_total_amount now ?db2 ord = Inr (ord', db')"
      by (auto split: sum.splits)
    from u have "order_tbl db' = (order_tbl ?db2)(o_id ord \<mapsto> ord')"
      by (auto simp add: update_total_amount_def Let_def split: sum.splits)
    with update_total_amount_tables(1,2) [OF u] show ?thesis by auto
  qed
  show ?thesis
    using upd rest save after by blast
qed

text \<open>
  Three burgers, each needing one bun, take the stock of buns from 10 to 7, and the
  order total becomes 20 + 5 + 30.
\<close>

theorem OrderItem_save_depletes_stock_witness:
  "distinct (map r_ingredient (recipe_items diner (oi_menu_item line_c)))
   \<and> recipe_items diner (oi_menu_item line_c) = [\<lparr>r_menu_item = 1, r_ingredient = 1, r_quantity = 1\<rparr>]
   \<and> ingredient_tbl diner 1 = Some bun
   \<and> i_quantity bun = 10
   \<and> order_tbl diner (oi_order line_c) = Some (order1 None)
   \<and> OrderItem_save exact_ops 0 None line_c diner =
       Inr \<lparr>ingredient_tbl = [1 \<mapsto> bun\<lparr>i_quantity := 7\<rparr>],
            recipe_tbl = [\<lparr>r_menu_item = 1, r_ingredient = 1, r_quantity = 1\<rparr>],
            order_tbl = [1 \<mapsto> order1 None\<lparr>total_amount := 55\<rparr>],
            orderitem_tbl = [(1, line_a), (2, line_b), (3, line_c)]\<rparr>"
proof -
  have m: "oi_menu_item line_c = Suc 0" "oi_order line_c = Suc 0" "oi_quantity line_c = 3"
    by (simp_all add: line_c_def)
  have h1: "distinct (map r_ingredient (recipe_items diner (oi_menu_item line_c)))"
    by (simp add: m recipe_items_diner)
  have h2: "\<forall>r\<in>set (recipe_items diner (oi_menu_item line_c)).
      ingredient_tbl diner (r_ingredient r) \<noteq> None"
    by (simp add: m recipe_items_diner ingredient_tbl_diner)
  have h3: "order_tbl diner (oi_order line_c) = Some (order1 None)"
    by (simp add: m order_tbl_diner)
  from OrderItem_save_depletes_stock [OF h1 h2 h3, of exact_ops 0 None]
  obtain ings where
    upd: "\<forall>r\<in>set (recipe_items diner (oi_menu_item line_c)).
         \<exists>i. ingredient_tbl diner (r_ingredient r) = Some i \<and>
             ings (r_ingredient r) =
               Some (i\<lparr>i_quantity := float_sub exact_ops (i_quantity i)
                        (float_mul_int exact_ops (r_quantity r) (oi_quantity line_c))\<rparr>)"
    and rest: "\<forall>k. k \<notin> r_ingredient ` set (recipe_items diner (oi_menu_item line_c)) \<longrightarrow>
            ings k = ingredient_tbl diner k"
    and save: "OrderItem_save exact_ops 0 None line_c diner =
        (case update_total_amount 0
                (diner\<lparr>orderitem_tbl := super_save None line_c (orderitem_tbl diner),
                       ingredient_tbl := ings\<rparr>)
                (order1 None) of
           Inl e \<Rightarrow> Inl e
         | Inr (ord', db3) \<Rightarrow> Inr db3)"
    by blast
  have "ings (Suc 0) = Some (bun\<lparr>i_quantity := 7\<rparr>)"
    using upd by (simp add: m recipe_items_diner ingredient_tbl_diner exact_ops_def bun_def)
  moreover have "ings k = None" if "k \<noteq> Suc 0" for k
    using rest that by (simp add: m recipe_items_diner ingredient_tbl_diner)
  ultimately have ings: "ings = [1 \<mapsto> bun\<lparr>i_quantity := 7\<rparr>]"
    by (intro ext) simp
  have sv: "super_save None line_c (orderitem_tbl diner) = [(1, line_a), (2, line_b), (3, line_c)]"
    by (simp add: super_save_def orderitem_tbl_diner fresh_pk_def)
  let ?db2 = "diner\<lparr>orderitem_tbl := [(1, line_a), (2, line_b), (3, line_c)],
                    ingredient_tbl := [1 \<mapsto> bun\<lparr>i_quantity := 7\<rparr>]\<rparr>"
  have it: "items (diner\<lparr>orderitem_tbl := [(a, line_a), (b, line_b), (c, line_c)],
                          ingredient_tbl := g\<rparr>) (Suc 0) = [line_a, line_b, line_c]" for a b c g
    by (simp add: items_def line_a_def line_b_def line_c_def)
  have da: "discount_amount 0 (order1 None) (items ?db2 (o_id (order1 None))) = Inr 0"
    by (simp add: discount_amount_def order1_def)
  have sc: "subtotal line_c = 30" by (simp add: subtotal_def line_c_def)
  have u: "update_total_amount 0 ?db2 (order1 None) =
      Inr (order1 None\<lparr>total_amount := 55\<rparr>,
           ?db2\<lparr>order_tbl := [1 \<mapsto> order1 None\<lparr>total_amount := 55\<rparr>]\<rparr>)"
    using update_total_amount_Inr [OF da]
    by (simp add: o_id_order1 it subtotal_lines sc order_tbl_diner)
  have "OrderItem_save exact_ops 0 None line_c diner =
      Inr (?db2\<lparr>order_tbl := [1 \<mapsto> order1 None\<lparr>total_amount := 55\<rparr>]\<rparr>)"
    by (simp only: save ings sv u sum.case prod.case)
  then have "OrderItem_save exact_ops 0 None line_c diner =
       Inr \<lparr>ingredient_tbl = [1 \<mapsto> bun\<lparr>i_quantity := 7\<rparr>],
            recipe_tbl = [\<lparr>r_menu_item = 1, r_ingredient = 1, r_quantity = 1\<rparr>],
            order_tbl = [1 \<mapsto> order1 None\<lparr>total_amount := 55\<rparr>],
            orderitem_tbl = [(1, line_a), (2, line_b), (3, line_c)]\<rparr>"
    by (simp add: diner_def shop_def)
  then show ?thesis
    using h1 h3 by (simp add: m recipe_items_diner ingredient_tbl_diner bun_def)
qed

section \<open>Stock may go negative\<close>

text \<open>
  C8. Under the conditions of C2, and when the validity check of the order's discount
  raises nothing, a save whose depletion \<open>recipe.quantity * self.quantity\<close> exceeds the
  ingredient's stock returns all the same: the ingredient is stored with the reduced
  quantity and otherwise unchanged (its \<open>reorder_point\<close> plays no part), and the new
  quantity is below zero. The last part uses one property of float subtraction, which
  holds of IEEE 754 doubles and of exact arithmetic alike: if \<open>x < y\<close> then
  \<open>x - y < 0\<close>.
\<close>

theorem OrderItem_save_stock_unguarded:
  assumes "distinct (map r_ingredient (recipe_items db (oi_menu_item self)))"
    and "\<forall>r'\<in>set (recipe_items db (oi_menu_item self)).
           ingredient_tbl db (r_ingredient r') \<noteq> None"
    and "order_tbl db (oi_order self) = Some ord"
    and "\<forall>d. discount ord = Some d \<longrightarrow> is_valid now d \<noteq> Inl NameError"
    and "r \<in> set (recipe_items db (oi_menu_item self))"
    and "ingredient_tbl db (r_ingredient r) = Some i"
    and "float_less F (i_quantity i) (float_mul_int F (r_quantity r) (oi_quantity self))"
    and "\<forall>x y. float_less F x y \<longrightarrow> float_less F (float_sub F x y) (float_zero F)"
  shows "\<exists>db'. OrderItem_save F now pk self db = Inr db'
      \<and> ingredient_tbl db' (r_ingredient r) =
          Some (i\<lparr>i_quantity := float_sub F (i_quantity i)
                                 (float_mul_int F (r_quantity r) (oi_quantity self))\<rparr>)
      \<and> float_less F
          (float_sub F (i_quantity i) (float_mul_int F (r_quantity r) (oi_quantity self)))
          (float_zero F)"
proof -
  from deplete_distinct [OF assms(1,2), of F "oi_quantity self"] obtain ings where
    run: "deplete F (oi_quantity self) (recipe_items db (oi_menu_item self)) (ingredient_tbl db) = Inr ings"
    and upd: "\<forall>r\<in>set (recipe_items db (oi_menu_item self)).
         \<exists>i. ingredient_tbl db (r_ingredient r) = Some i \<and>
             ings (r_ingredient r) =
               Some (i\<lparr>i_quantity := float_sub F (i_quantity i)
                                      (float_mul_int F (r_quantity r) (oi_quantity self))\<rparr>)"
    by blast
  let ?db2 = "db\<lparr>orderitem_tbl := super_save pk self (orderitem_tbl db), ingredient_tbl := ings\<rparr>"
  from discount_amount_returns [OF assms(4)] obtain disc where
    "discount_amount now ord (items ?db2 (o_id ord)) = Inr disc" by blast
  from update_total_amount_Inr [OF this] obtain ord' db' where
    u: "update_total_amount now ?db2 ord = Inr (ord', db')" by blast
  have "OrderItem_save F now pk self db = Inr db'"
    by (simp add: OrderItem_save_unfold [OF run assms(3)] u)
  moreover have "ingredient_tbl db' = ings"
    using update_total_amount_tables(1) [OF u] by simp
  moreover have "ings (r_ingredient r) =
      Some (i\<lparr>i_quantity := float_sub F (i_quantity i)
                             (float_mul_int F (r_quantity r) (oi_quantity self))\<rparr>)"
    using upd assms(5,6) by auto
  moreover have "float_less F
      (float_sub F (i_quantity i) (float_mul_int F (r_quantity r) (oi_quantity self)))
      (float_zero F)"
    using assms(7,8) by blast
  ultimately show ?thesis by simp
qed

text \<open>Twenty burgers against a stock of 10 buns leave -10 buns.\<close>

theorem OrderItem_save_stock_unguarded_witness:
  "distinct (map r_ingredient (recipe_items diner (oi_menu_item line_d)))
   \<and> recipe_items diner (oi_menu_item line_d) = [\<lparr>r_menu_item = 1, r_ingredient = 1, r_quantity = 1\<rparr>]
   \<and> ingredient_tbl diner 1 = Some bun
   \<and> order_tbl diner (oi_order line_d) = Some (order1 None)
   \<and> discount (order1 None) = None
   \<and> float_less exact_ops (i_quantity bun) (float_mul_int exact_ops 1 (oi_quantity line_d))
   \<and> map_sum id (\<lambda>db'. map_option i_quantity (ingredient_tbl db' 1))
        (OrderItem_save exact_ops 0 None line_d diner) = Inr (Some (- 10))
   \<and> map_sum id (\<lambda>db'. map_option reorder_point (ingredient_tbl db' 1))
        (OrderItem_save exact_ops 0 None line_d diner) = Inr (Some 5)
   \<and> float_less exact_ops (- 10) (float_zero exact_ops)"
proof -
  let ?r = "\<lparr>r_menu_item = 1, r_ingredient = 1, r_quantity = 1 :: rat\<rparr>"
  have m: "oi_menu_item line_d = Suc 0" "oi_order line_d = Suc 0" "oi_quantity line_d = 20"
    by (simp_all add: line_d_def)
  have h1: "distinct (map r_ingredient (recipe_items diner (oi_menu_item line_d)))"
    by (simp add: m recipe_items_diner)
  have h2: "\<forall>r'\<in>set (recipe_items diner (oi_menu_item line_d)).
      ingredient_tbl diner (r_ingredient r') \<noteq> None"
    by (simp add: m recipe_items_diner ingredient_tbl_diner)
  have h3: "order_tbl diner (oi_order line_d) = Some (order1 None)"
    by (simp add: m order_tbl_diner)
  have h4: "\<forall>d. discount (order1 None) = Some d \<longrightarrow> is_valid 0 d \<noteq> Inl NameError"
    by (simp add: order1_def)
  have h5: "?r \<in> set (recipe_items diner (oi_menu_item line_d))"
    by (simp add: m recipe_items_diner)
  have h6: "ingredient_tbl diner (r_ingredient ?r) = Some bun"
    by (simp add: ingredient_tbl_diner)
  have h7: "float_less exact_ops (i_quantity bun)
      (float_mul_int exact_ops (r_quantity ?r) (oi_quantity line_d))"
    by (simp add: exact_ops_def bun_def m)
  have h8: "\<forall>x y. float_less exact_ops x y \<longrightarrow>
      float_less exact_ops (float_sub exact_ops x y) (float_zero exact_ops)"
    by (simp add: exact_ops_def)
  from OrderItem_save_stock_unguarded [OF h1 h2 h3 h4 h5 h6 h7 h8, of None]
  obtain db' where
    save: "OrderItem_save exact_ops 0 None line_d diner = Inr db'"
    and ing: "ingredient_tbl db' (r_ingredient ?r) =
        Some (bun\<lparr>i_quantity := float_sub exact_ops (i_quantity bun)
                 (float_mul_int exact_ops (r_quantity ?r) (oi_quantity line_d))\<rparr>)"
    and neg: "float_less exact_ops
        (float_sub exact_ops (i_quantity bun)
           (float_mul_int exact_ops (r_quantity ?r) (oi_quantity line_d)))
        (float_zero exact_ops)"
    by blast
  from ing have ing': "ingredient_tbl db' (Suc 0) = Some (bun\<lparr>i_quantity := - 10\<rparr>)"
    by (simp add: exact_ops_def bun_def m)
  have "map_sum id (\<lambda>db'. map_option i_quantity (ingredient_tbl db' 1))
        (OrderItem_save exact_ops 0 None line_d diner) = Inr (Some (- 10))"
    by (simp add: save ing')
  moreover have "map_sum id (\<lambda>db'. map_option reorder_point (ingredient_tbl db' 1))
        (OrderItem_save exact_ops 0 None line_d diner) = Inr (Some 5)"
    by (simp add: save ing' bun_def)
  moreover have "float_less exact_ops (- 10) (float_zero exact_ops)"
    by (simp add: exact_ops_def)
  moreover have "discount (order1 None) = None" by (simp add: order1_def)
  ultimately show ?thesis
    using h1 h3 h7 by (simp add: m recipe_items_diner ingredient_tbl_diner)
qed

end
